theory Spec2Isabelle
  imports Complex_Main
begin

section \<open>The stock predictor client: data model\<close>

text \<open>
  The sources are the React client of the stock predictor: \<open>App.tsx\<close> (the application
  state and \<open>handleAddStock\<close>), the add-stock dialog (\<open>AddStockModal\<close>, with
  \<open>handleSubmit\<close>), the stock card (\<open>StockCard\<close>, with \<open>getPredictionIcon\<close> and
  \<open>getChartDomain\<close>) and the market overview. The backend that answers the HTTP requests
  is not among them, so every HTTP answer is an input of the model.

  The confidence, the accuracy and the other numbers of a prediction are modelled as
  \<open>real\<close>: there the model has no rounding, no \<open>NaN\<close> and no infinity. The prices of the
  chart are JavaScript numbers with their infinities, \<open>NaN\<close> and overflow (see the section
  on the stock card). A TypeScript interface is a record with the interface's field
  names; where two interfaces share a field name the field is written with its record's
  name in front (\<open>Prediction.confidence\<close>, \<open>NewStockData.confidence\<close>). TypeScript's
  types are erased when the program runs, so a value typed by a cast (\<open>as\<close>) is modelled
  with the type it had before the cast.
\<close>

text \<open>\<open>interface Performance\<close> of \<open>App.tsx\<close>.\<close>

record Performance =
  accuracy :: real
  total_predictions :: nat

text \<open>
  \<open>interface Prediction\<close> of \<open>App.tsx\<close> and of the stock card. The field \<open>prediction\<close>
  is declared \<open>'UP' | 'DOWN' | 'ERROR'\<close>; \<open>handleAddStock\<close> fills it from a \<open>string\<close>
  through the cast \<open>as 'UP' | 'DOWN'\<close>, which checks nothing, so the field holds a string.
\<close>

record Prediction =
  prediction :: string
  confidence :: real
  accuracy :: real

text \<open>\<open>interface PredictionData\<close>: \<open>Record<string, Prediction>\<close> is a map from symbols.\<close>

record PredictionData =
  predictions :: "string \<rightharpoonup> Prediction"
  last_updated :: string
  prediction_date :: string

text \<open>\<open>interface NewStockData\<close> of \<open>App.tsx\<close> and of the add-stock dialog.\<close>

record NewStockData =
  symbol :: string
  name :: string
  currentPrice :: real
  prediction :: real
  confidence :: real
  direction :: string

text \<open>
  The state of \<open>App\<close>: one field for each \<open>useState\<close> cell that the modelled functions
  read or write. The cells \<open>predictions\<close> and \<open>error\<close> are named \<open>app_predictions\<close> and
  \<open>app_error\<close>, since \<open>predictions\<close> is also a field of \<open>PredictionData\<close> and \<open>error\<close> a
  cell of the dialog.
\<close>

record AppState =
  app_predictions :: "PredictionData option"
  performance :: "Performance option"
  loading :: bool
  app_error :: "string option"
  isAddModalOpen :: bool
  customStocks :: "string list"

definition defaultStocks :: "string list" where
  "defaultStocks = [''AAPL'', ''MSFT'', ''NVDA'', ''GOOGL'', ''AMZN'']"

text \<open>\<open>const allStocks = [...defaultStocks, ...customStocks]\<close>: the symbols that get a card.\<close>

definition allStocks :: "AppState \<Rightarrow> string list" where
  "allStocks s = defaultStocks @ customStocks s"

text \<open>The state \<open>App\<close> starts in: the initial values of its \<open>useState\<close> cells.\<close>

definition initialState :: AppState where
  "initialState =
     \<lparr>app_predictions = None, performance = None, loading = True, app_error = None,
      isAddModalOpen = False, customStocks = []\<rparr>"

section \<open>Fetching the predictions\<close>

text \<open>
  \<open>fetchData\<close> of \<open>App.tsx\<close>. Its argument is what the two requests gave: the payloads
  of \<open>/api/predict\<close> and of \<open>/api/stats\<close> (its \<open>performance\<close> field), or \<open>None\<close> when
  \<open>Promise.all\<close> rejected.
\<close>

definition fetchData :: "(PredictionData \<times> Performance) option \<Rightarrow> AppState \<Rightarrow> AppState" where
  "fetchData res s =
     (case res of
        Some (predictionRes, statsRes) \<Rightarrow>
          s\<lparr>app_predictions := Some predictionRes, performance := Some statsRes,
            loading := False\<rparr>
      | None \<Rightarrow>
          s\<lparr>app_error := Some ''Failed to fetch predictions. Please try again later.'',
            loading := False\<rparr>)"

text \<open>
  What reading a property of an object gives: \<open>undefined\<close>, the value of a property of the
  object's own, or a member that every object inherits from \<open>Object.prototype\<close>. Such a
  member is a function or an object; it is no prediction and it is not \<open>undefined\<close>.
\<close>

datatype 'a property = Undefined | Own 'a | Inherited

text \<open>The names of the members of \<open>Object.prototype\<close>.\<close>

definition objectPrototypeKeys :: "string list" where
  "objectPrototypeKeys =
     [''constructor'', ''__defineGetter__'', ''__defineSetter__'', ''hasOwnProperty'',
      ''__lookupGetter__'', ''__lookupSetter__'', ''isPrototypeOf'', ''propertyIsEnumerable'',
      ''toString'', ''valueOf'', ''__proto__'', ''toLocaleString'']"

text \<open>
  The property \<open>prediction={predictions?.predictions[symbol]}\<close> that \<open>App\<close> hands to the card
  of \<open>symbol\<close>. The map \<open>predictions pd\<close> holds the properties of the object's own.
\<close>

definition cardPrediction :: "AppState \<Rightarrow> string \<Rightarrow> Prediction property" where
  "cardPrediction s sy =
     (case app_predictions s of
        None \<Rightarrow> Undefined
      | Some pd \<Rightarrow>
          (case predictions pd sy of
             Some p \<Rightarrow> Own p
           | None \<Rightarrow> if sy \<in> set objectPrototypeKeys then Inherited else Undefined))"

section \<open>Adding a stock\<close>

text \<open>
  \<open>handleAddStock\<close> of \<open>App.tsx\<close>. The first argument is the value that the call
  \<open>Math.random()\<close> returns, a number from 0 (included) up to 1 (excluded); the call is
  made only when \<open>predictions\<close> is not null.
\<close>

definition handleAddStock :: "real \<Rightarrow> NewStockData \<Rightarrow> AppState \<Rightarrow> AppState" where
  "handleAddStock rnd stockData s =
     (if symbol stockData \<notin> set (customStocks s) then
        let s1 = s\<lparr>customStocks := customStocks s @ [symbol stockData]\<rparr> in
        (case app_predictions s of
           Some prev \<Rightarrow>
             let newPrediction =
                   \<lparr>Prediction.prediction = direction stockData,
                    Prediction.confidence = NewStockData.confidence stockData / 100,
                    Prediction.accuracy = rnd * 0.3 + 0.7\<rparr>
             in s1\<lparr>app_predictions :=
                     Some (prev\<lparr>predictions := (predictions prev)(symbol stockData \<mapsto> newPrediction)\<rparr>)\<rparr>
         | None \<Rightarrow> s1)
      else s)"

text \<open>\<open>onClose={() => setIsAddModalOpen(false)}\<close>.\<close>

definition onClose :: "AppState \<Rightarrow> AppState" where
  "onClose s = s\<lparr>isAddModalOpen := False\<rparr>"

subsection \<open>The dialog\<close>

text \<open>The \<open>useState\<close> cells of \<open>AddStockModal\<close>.\<close>

record AddStockModal =
  stockSymbol :: string
  isLoading :: bool
  error :: string

text \<open>
  What \<open>axios.post\<close> gives: it resolves with the payload of a successful answer, or it
  rejects with an error \<open>err\<close>. Of the error the handler reads \<open>err.response?.status\<close> and
  \<open>err.response?.data?.error\<close>; \<open>err.response\<close> is absent when no answer arrived.
\<close>

record ErrorResponse =
  status :: nat
  data_error :: "string option"

datatype 'a AxiosResult = Resolved 'a | Rejected "ErrorResponse option"

text \<open>
  \<open>String.prototype.trim\<close> on the one-byte characters of a \<open>string\<close>: white space is
  tab, line feed, vertical tab, form feed, carriage return, space and the no-break space.
\<close>

definition isWhiteSpace :: "char \<Rightarrow> bool" where
  "isWhiteSpace c = ((of_char c :: nat) \<in> {9, 10, 11, 12, 13, 32, 160})"

definition trim :: "string \<Rightarrow> string" where
  "trim s = rev (dropWhile isWhiteSpace (rev (dropWhile isWhiteSpace s)))"

definition notFoundMessage :: string where
  "notFoundMessage = ''Stock symbol not found. Please check the symbol and try again.''"

definition failedMessage :: string where
  "failedMessage = ''Failed to add stock. Please try again.''"

text \<open>
  The message of the \<open>catch\<close> block of \<open>handleSubmit\<close>. In
  \<open>err.response?.data?.error || '...'\<close> an absent or empty error text gives the default.
\<close>

definition errorMessage :: "ErrorResponse option \<Rightarrow> string" where
  "errorMessage err =
     (if map_option status err = Some 404 then notFoundMessage
      else (case err of
              None \<Rightarrow> failedMessage
            | Some r \<Rightarrow>
                (case data_error r of
                   None \<Rightarrow> failedMessage
                 | Some e \<Rightarrow> if e = [] then failedMessage else e)))"

text \<open>
  \<open>handleSubmit\<close> of \<open>AddStockModal\<close>, with \<open>onAddStock\<close> bound to \<open>handleAddStock\<close> and
  \<open>onClose\<close> as \<open>App\<close> binds them. \<open>post\<close> is the backend: the answer of
  \<open>/api/add-stock\<close> to a symbol. The payload may carry more fields than the six the handler
  copies. \<open>toUpperCase\<close> is \<open>String.prototype.toUpperCase\<close>, a function of the language
  and not of these sources: it is an argument, and what is proved holds whatever it
  computes. The result is the state of \<open>App\<close> and of the dialog when the handler is done.
\<close>

definition handleSubmit ::
  "real \<Rightarrow> (string \<Rightarrow> string) \<Rightarrow> (string \<Rightarrow> 'z NewStockData_scheme AxiosResult) \<Rightarrow>
   AppState \<times> AddStockModal \<Rightarrow> AppState \<times> AddStockModal" where
  "handleSubmit rnd toUpperCase post st =
     (case st of (app, m) \<Rightarrow>
        if trim (stockSymbol m) = [] then (app, m\<lparr>error := ''Please enter a stock symbol''\<rparr>)
        else
          (case post (toUpperCase (stockSymbol m)) of
             Resolved data \<Rightarrow>
               let stockData =
                     \<lparr>symbol = symbol data, name = name data, currentPrice = currentPrice data,
                      prediction = NewStockData.prediction data,
                      confidence = NewStockData.confidence data, direction = direction data\<rparr>
               in (onClose (handleAddStock rnd stockData app),
                   m\<lparr>stockSymbol := [], isLoading := False, error := []\<rparr>)
           | Rejected err \<Rightarrow> (app, m\<lparr>isLoading := False, error := errorMessage err\<rparr>)))"

section \<open>The stock card\<close>

datatype Icon = TrendingUp | TrendingDown | QuestionMark

text \<open>
  \<open>getPredictionIcon\<close> of \<open>StockCard\<close>. The property \<open>prediction\<close> may be \<open>undefined\<close>,
  which \<open>!prediction\<close> finds. An inherited member is not \<open>undefined\<close> and has no field
  \<open>prediction\<close>, so the \<open>switch\<close> takes its default.
\<close>

definition getPredictionIcon :: "Prediction property \<Rightarrow> Icon" where
  "getPredictionIcon p =
     (case p of
        Undefined \<Rightarrow> QuestionMark
      | Own q \<Rightarrow>
          if Prediction.prediction q = ''UP'' then TrendingUp
          else if Prediction.prediction q = ''DOWN'' then TrendingDown
          else QuestionMark
      | Inherited \<Rightarrow> QuestionMark)"

subsection \<open>Numbers of the chart\<close>












subsection \<open>The domain of the chart\<close>






section \<open>The market overview\<close>

text \<open>The field \<open>marketSentiment\<close> of \<open>interface MarketData\<close> in \<open>MarketOverview.tsx\<close>.\<close>

record MarketSentiment =
  bullish :: real
  bearish :: real
  neutral :: real

text \<open>
  Modelled from the spec: the sentiment part of \<open>MarketAggregator.snapshot\<close>, which runs in
  the backend and is not among the sources (the client only displays the three numbers it
  receives). The spec derives the percentages "from the sign and magnitude of
  percent-change across the watch-list (e.g., thresholds at \<plusminus>0.5%)": a symbol is bullish
  when its percent change is above 0.5, bearish when it is below -0.5 and neutral
  otherwise, and each percentage is the share of the watch-list in that class, not rounded.
  The spec gives no percentages for an empty watch-list, of which no share exists: the
  model gives no sentiment there.
\<close>

definition isBullish :: "real \<Rightarrow> bool" where
  "isBullish c = (0.5 < c)"

definition isBearish :: "real \<Rightarrow> bool" where
  "isBearish c = (c < - 0.5)"

definition isNeutral :: "real \<Rightarrow> bool" where
  "isNeutral c = (\<not> isBullish c \<and> \<not> isBearish c)"

definition share :: "(real \<Rightarrow> bool) \<Rightarrow> real list \<Rightarrow> real" where
  "share P changes = 100 * real (length (filter P changes)) / real (length changes)"

text \<open>
  Modelled from the spec: the sentiment percentages of \<open>MarketAggregator.snapshot\<close> (backend
  code, not among the sources), from the percent changes of the watch-list.
\<close>

definition snapshotSentiment :: "real list \<Rightarrow> MarketSentiment option" where
  "snapshotSentiment changes =
     (if changes = [] then None
      else Some \<lparr>bullish = share isBullish changes, bearish = share isBearish changes,
                  neutral = share isNeutral changes\<rparr>)"

section \<open>A failed cycle\<close>

text \<open>
  Modelled from the spec: the failure step of a cycle of the \<open>TrainingScheduler\<close>, which
  runs in the backend and is not among the sources. "A cycle that ultimately fails marks
  the symbol's Prediction as ERROR confidence 0, leaves the AccuracyLedger untouched":
  in the served predictions the symbol's entry becomes the placeholder with direction
  ERROR and confidence 0. Its accuracy, the first argument, is the rolling accuracy of the
  untouched ledger. The other entries and the two dates stay.
\<close>

definition failedCycle :: "real \<Rightarrow> string \<Rightarrow> PredictionData \<Rightarrow> PredictionData" where
  "failedCycle acc sy pd =
     pd\<lparr>predictions := (predictions pd)(sy \<mapsto>
          \<lparr>Prediction.prediction = ''ERROR'', Prediction.confidence = 0,
           Prediction.accuracy = acc\<rparr>)\<rparr>"

section \<open>Example inputs\<close>

text \<open>A payload of \<open>/api/predict\<close>, one of \<open>/api/stats\<close>, and the state after they arrived.\<close>

definition examplePredictions :: PredictionData where
  "examplePredictions =
     \<lparr>predictions =
        [''AAPL'' \<mapsto> \<lparr>Prediction.prediction = ''UP'', Prediction.confidence = 0.62,
                       Prediction.accuracy = 0.55\<rparr>],
      last_updated = ''2024-01-02T08:00:00'', prediction_date = ''2024-01-02''\<rparr>"

definition examplePerformance :: Performance where
  "examplePerformance = \<lparr>Performance.accuracy = 0.55, total_predictions = 20\<rparr>"

definition loadedState :: AppState where
  "loadedState = fetchData (Some (examplePredictions, examplePerformance)) initialState"

text \<open>An answer of \<open>/api/add-stock\<close> and a dialog in which a symbol has been typed.\<close>

definition exampleStock :: NewStockData where
  "exampleStock =
     \<lparr>symbol = ''TSLA'', name = ''Tesla Inc'', currentPrice = 250, prediction = 1,
      confidence = 80, direction = ''UP''\<rparr>"

definition exampleModal :: AddStockModal where
  "exampleModal = \<lparr>stockSymbol = ''TSLA'', isLoading = False, error = []\<rparr>"

section \<open>Basic facts about adding a stock\<close>

text \<open>
  \<open>handleAddStock\<close> accepts an answer when its symbol is not among \<open>customStocks\<close> and
  the predictions have been loaded. It then appends the symbol and stores one new
  prediction under it.
\<close>

lemma handleAddStock_accepted:
  assumes "symbol stockData \<notin> set (customStocks s)" and "app_predictions s = Some prev"
  shows "handleAddStock rnd stockData s =
           s\<lparr>customStocks := customStocks s @ [symbol stockData],
             app_predictions := Some (prev\<lparr>predictions := (predictions prev)(symbol stockData \<mapsto>
                \<lparr>Prediction.prediction = direction stockData,
                 Prediction.confidence = NewStockData.confidence stockData / 100,
                 Prediction.accuracy = rnd * 0.3 + 0.7\<rparr>)\<rparr>)\<rparr>"
  using assms by (simp add: handleAddStock_def Let_def)

lemma handleAddStock_known:
  assumes "symbol stockData \<in> set (customStocks s)"
  shows "handleAddStock rnd stockData s = s"
  using assms by (simp add: handleAddStock_def)

lemma cardPrediction_added:
  assumes "symbol stockData \<notin> set (customStocks s)" and "app_predictions s = Some prev"
  shows "cardPrediction (handleAddStock rnd stockData s) (symbol stockData) =
           Own \<lparr>Prediction.prediction = direction stockData,
                 Prediction.confidence = NewStockData.confidence stockData / 100,
                 Prediction.accuracy = rnd * 0.3 + 0.7\<rparr>"
  by (simp add: handleAddStock_accepted [OF assms] cardPrediction_def)

lemma cardPrediction_other:
  assumes "sy \<noteq> symbol stockData"
  shows "cardPrediction (handleAddStock rnd stockData s) sy = cardPrediction s sy"
  using assms by (simp add: handleAddStock_def cardPrediction_def Let_def split: option.splits)

lemma cardPrediction_cases:
  "cardPrediction (handleAddStock rnd stockData s) sy = cardPrediction s sy \<or>
   cardPrediction (handleAddStock rnd stockData s) sy =
     Own \<lparr>Prediction.prediction = direction stockData,
                 Prediction.confidence = NewStockData.confidence stockData / 100,
                 Prediction.accuracy = rnd * 0.3 + 0.7\<rparr>"
  by (simp add: handleAddStock_def cardPrediction_def Let_def split: option.splits)

text \<open>
  A symbol that has a card after \<open>handleAddStock\<close> had one before, unless it is the
  symbol of an answer that was accepted.
\<close>

lemma allStocks_handleAddStock:
  assumes "sy \<in> set (allStocks (handleAddStock rnd stockData s))"
  shows "sy \<in> set (allStocks s) \<or>
         (sy = symbol stockData \<and> symbol stockData \<notin> set (customStocks s))"
  using assms
  by (auto simp: handleAddStock_def allStocks_def Let_def split: option.splits if_splits)

text \<open>
  What holds of every prediction on a card before \<open>handleAddStock\<close>, and of the
  prediction it builds, holds of every prediction on a card after it.
\<close>

lemma handleAddStock_preserves:
  assumes inv: "\<forall>sy \<in> set (allStocks s). \<forall>p. cardPrediction s sy = Own p \<longrightarrow> P p"
    and new: "P \<lparr>Prediction.prediction = direction stockData,
                 Prediction.confidence = NewStockData.confidence stockData / 100,
                 Prediction.accuracy = rnd * 0.3 + 0.7\<rparr>"
  shows "\<forall>sy \<in> set (allStocks (handleAddStock rnd stockData s)).
           \<forall>p. cardPrediction (handleAddStock rnd stockData s) sy = Own p \<longrightarrow> P p"
proof (intro ballI allI impI)
  fix sy p
  assume mem: "sy \<in> set (allStocks (handleAddStock rnd stockData s))"
    and p: "cardPrediction (handleAddStock rnd stockData s) sy = Own p"
  from cardPrediction_cases [of rnd stockData s sy] show "P p"
  proof
    assume same: "cardPrediction (handleAddStock rnd stockData s) sy = cardPrediction s sy"
    from allStocks_handleAddStock [OF mem] show ?thesis
    proof
      assume "sy \<in> set (allStocks s)"
      with inv p same show ?thesis by simp
    next
      assume acc: "sy = symbol stockData \<and> symbol stockData \<notin> set (customStocks s)"
      show ?thesis
      proof (cases "app_predictions s")
        case None
        then have "cardPrediction s sy = Undefined" by (simp add: cardPrediction_def)
        with p same show ?thesis by simp
      next
        case (Some prev)
        from acc have a: "symbol stockData \<notin> set (customStocks s)" by simp
        from p acc new show ?thesis by (simp add: cardPrediction_added [OF a Some])
      qed
    qed
  next
    assume "cardPrediction (handleAddStock rnd stockData s) sy = Own \<lparr>Prediction.prediction = direction stockData,
                 Prediction.confidence = NewStockData.confidence stockData / 100,
                 Prediction.accuracy = rnd * 0.3 + 0.7\<rparr>"
    with p new show ?thesis by simp
  qed
qed

text \<open>Adding twice is adding once: the second call finds the symbol in \<open>customStocks\<close>.\<close>

lemma handleAddStock_twice:
  "handleAddStock rnd' stockData (handleAddStock rnd stockData s) = handleAddStock rnd stockData s"
proof (cases "symbol stockData \<in> set (customStocks s)")
  case True
  then show ?thesis by (simp add: handleAddStock_known)
next
  case False
  then have "symbol stockData \<in> set (customStocks (handleAddStock rnd stockData s))"
    by (simp add: handleAddStock_def Let_def split: option.splits)
  then show ?thesis by (rule handleAddStock_known)
qed

lemma loadedState_simps:
  "customStocks loadedState = []"
  "app_predictions loadedState = Some examplePredictions"
  by (simp_all add: loadedState_def fetchData_def initialState_def)

lemma allStocks_loadedState:
  "allStocks loadedState = [''AAPL'', ''MSFT'', ''NVDA'', ''GOOGL'', ''AMZN'']"
  by (simp add: allStocks_def defaultStocks_def loadedState_simps)

lemma cardPrediction_loadedState:
  "cardPrediction loadedState sy =
     (if sy = ''AAPL''
      then Own \<lparr>Prediction.prediction = ''UP'', Prediction.confidence = 0.62,
                Prediction.accuracy = 0.55\<rparr>
      else if sy \<in> set objectPrototypeKeys then Inherited else Undefined)"
  by (simp add: cardPrediction_def loadedState_simps examplePredictions_def)

section \<open>The range of confidence and accuracy\<close>

text \<open>
  Claim C1, as the code has it. The client checks no range: the confidence it stores for an
  added symbol is the answer's confidence divided by 100, whatever the answer holds. So
  the predictions on the cards stay within 0 and 1 when they were so before and the
  answer's confidence is a percentage between 0 and 100: if every card of \<open>allStocks\<close>
  that has a prediction has its confidence and its accuracy in [0, 1], the answer's
  confidence is in [0, 100] and \<open>Math.random()\<close> gave a number in [0, 1), then after
  \<open>handleAddStock\<close> every card that has a prediction still has both in [0, 1].
\<close>

theorem handleAddStock_keeps_unit_range:
  assumes inv: "\<forall>sy \<in> set (allStocks s). \<forall>p. cardPrediction s sy = Own p \<longrightarrow>
            0 \<le> Prediction.confidence p \<and> Prediction.confidence p \<le> 1 \<and>
            0 \<le> Prediction.accuracy p \<and> Prediction.accuracy p \<le> 1"
    and conf: "0 \<le> NewStockData.confidence stockData" "NewStockData.confidence stockData \<le> 100"
    and rnd: "0 \<le> rnd" "rnd < 1"
  shows "\<forall>sy \<in> set (allStocks (handleAddStock rnd stockData s)).
           \<forall>p. cardPrediction (handleAddStock rnd stockData s) sy = Own p \<longrightarrow>
            0 \<le> Prediction.confidence p \<and> Prediction.confidence p \<le> 1 \<and>
            0 \<le> Prediction.accuracy p \<and> Prediction.accuracy p \<le> 1"
proof (rule handleAddStock_preserves [where P = "\<lambda>p. 0 \<le> Prediction.confidence p \<and> Prediction.confidence p \<le> 1 \<and>
            0 \<le> Prediction.accuracy p \<and> Prediction.accuracy p \<le> 1"])
  show "\<forall>sy \<in> set (allStocks s). \<forall>p. cardPrediction s sy = Own p \<longrightarrow>
            0 \<le> Prediction.confidence p \<and> Prediction.confidence p \<le> 1 \<and>
            0 \<le> Prediction.accuracy p \<and> Prediction.accuracy p \<le> 1"
    by (rule inv)
next
  let ?p = "\<lparr>Prediction.prediction = direction stockData,
                 Prediction.confidence = NewStockData.confidence stockData / 100,
                 Prediction.accuracy = rnd * 0.3 + 0.7\<rparr>"
  show "0 \<le> Prediction.confidence ?p \<and> Prediction.confidence ?p \<le> 1 \<and>
        0 \<le> Prediction.accuracy ?p \<and> Prediction.accuracy ?p \<le> 1"
    using conf rnd by simp
qed

text \<open>
  The theorem at the loaded example state, the answer for TSLA (confidence 80) and the
  random number one half: the new card holds confidence 4/5 and accuracy 17/20.
\<close>

theorem handleAddStock_keeps_unit_range_witness:
  "list_all (\<lambda>sy. case cardPrediction loadedState sy of
                     Own p \<Rightarrow> 0 \<le> Prediction.confidence p \<and> Prediction.confidence p \<le> 1 \<and>
            0 \<le> Prediction.accuracy p \<and> Prediction.accuracy p \<le> 1
                   | _ \<Rightarrow> True)
      (allStocks loadedState) \<and>
   0 \<le> NewStockData.confidence exampleStock \<and> NewStockData.confidence exampleStock \<le> 100 \<and>
   (0::real) \<le> 1 / 2 \<and> (1 / 2 :: real) < 1 \<and>
   list_all (\<lambda>sy. case cardPrediction (handleAddStock (1 / 2) exampleStock loadedState) sy of
                     Own p \<Rightarrow> 0 \<le> Prediction.confidence p \<and> Prediction.confidence p \<le> 1 \<and>
            0 \<le> Prediction.accuracy p \<and> Prediction.accuracy p \<le> 1
                   | _ \<Rightarrow> True)
      (allStocks (handleAddStock (1 / 2) exampleStock loadedState)) \<and>
   allStocks (handleAddStock (1 / 2) exampleStock loadedState) =
     [''AAPL'', ''MSFT'', ''NVDA'', ''GOOGL'', ''AMZN'', ''TSLA''] \<and>
   cardPrediction (handleAddStock (1 / 2) exampleStock loadedState) ''TSLA'' =
     Own \<lparr>Prediction.prediction = ''UP'', Prediction.confidence = 4 / 5,
          Prediction.accuracy = 17 / 20\<rparr>"
proof -
  have h1: "\<forall>sy \<in> set (allStocks loadedState). \<forall>p. cardPrediction loadedState sy = Own p \<longrightarrow>
            0 \<le> Prediction.confidence p \<and> Prediction.confidence p \<le> 1 \<and>
            0 \<le> Prediction.accuracy p \<and> Prediction.accuracy p \<le> 1"
    by (auto simp: cardPrediction_loadedState split: if_splits)
  have h2: "0 \<le> NewStockData.confidence exampleStock"
    "NewStockData.confidence exampleStock \<le> 100"
    by (simp_all add: exampleStock_def)
  have h3: "(0::real) \<le> 1 / 2" "(1 / 2 :: real) < 1" by simp_all
  have a: "allStocks (handleAddStock (1 / 2) exampleStock loadedState) =
     [''AAPL'', ''MSFT'', ''NVDA'', ''GOOGL'', ''AMZN'', ''TSLA'']"
    by (simp add: handleAddStock_def loadedState_simps exampleStock_def allStocks_def
        defaultStocks_def Let_def)
  have v: "cardPrediction (handleAddStock (1 / 2) exampleStock loadedState) ''TSLA'' =
     Own \<lparr>Prediction.prediction = ''UP'', Prediction.confidence = 4 / 5,
          Prediction.accuracy = 17 / 20\<rparr>"
    by (simp add: handleAddStock_def loadedState_simps exampleStock_def cardPrediction_def Let_def)
  have c1: "list_all (\<lambda>sy. case cardPrediction loadedState sy of
                     Own p \<Rightarrow> 0 \<le> Prediction.confidence p \<and> Prediction.confidence p \<le> 1 \<and>
            0 \<le> Prediction.accuracy p \<and> Prediction.accuracy p \<le> 1
                   | _ \<Rightarrow> True)
      (allStocks loadedState)"
    unfolding list_all_iff using h1 by (simp split: property.splits)
  have c2: "list_all (\<lambda>sy. case cardPrediction (handleAddStock (1 / 2) exampleStock loadedState) sy of
                     Own p \<Rightarrow> 0 \<le> Prediction.confidence p \<and> Prediction.confidence p \<le> 1 \<and>
            0 \<le> Prediction.accuracy p \<and> Prediction.accuracy p \<le> 1
                   | _ \<Rightarrow> True)
      (allStocks (handleAddStock (1 / 2) exampleStock loadedState))"
    unfolding list_all_iff using handleAddStock_keeps_unit_range [OF h1 h2 h3]
    by (simp split: property.splits)
  from c1 h2 h3 c2 a v show ?thesis by blast
qed

text \<open>
  Claim C1 as the spec states it fails: an answer whose confidence is 150 is stored as the
  confidence 3/2 on the card of the added symbol.
\<close>

theorem handleAddStock_confidence_above_one:
  "cardPrediction
     (handleAddStock 0 (exampleStock\<lparr>NewStockData.confidence := 150\<rparr>) loadedState) ''TSLA'' =
     Own \<lparr>Prediction.prediction = ''UP'', Prediction.confidence = 3 / 2,
          Prediction.accuracy = 7 / 10\<rparr> \<and>
   ''TSLA'' \<in> set (allStocks
       (handleAddStock 0 (exampleStock\<lparr>NewStockData.confidence := 150\<rparr>) loadedState)) \<and>
   \<not> (3 / 2 \<le> (1 :: real))"
  by (simp add: handleAddStock_def loadedState_simps exampleStock_def cardPrediction_def
      allStocks_def Let_def)

section \<open>Adding a symbol that is already listed\<close>

text \<open>
  Claim C2: adding a symbol that the list of symbols already holds leaves the list as it
  is. \<open>handleAddStock\<close> looks for the symbol in \<open>customStocks\<close> only, while the list of
  symbols is \<open>allStocks\<close>, the default symbols followed by \<open>customStocks\<close>. For AAPL, a
  default symbol, the list grows by a second AAPL.
\<close>

theorem handleAddStock_duplicates_default:
  "''AAPL'' \<in> set (allStocks loadedState) \<and>
   allStocks (handleAddStock 0 (exampleStock\<lparr>symbol := ''AAPL''\<rparr>) loadedState) =
     [''AAPL'', ''MSFT'', ''NVDA'', ''GOOGL'', ''AMZN'', ''AAPL''] \<and>
   allStocks (handleAddStock 0 (exampleStock\<lparr>symbol := ''AAPL''\<rparr>) loadedState) \<noteq>
     allStocks loadedState"
  by (simp add: handleAddStock_def loadedState_simps exampleStock_def allStocks_def
      defaultStocks_def Let_def)

section \<open>A symbol the provider does not know\<close>

text \<open>
  Claim C3: when the backend answers the add-stock request with status 404, the dialog
  shows the not-found message and the state of \<open>App\<close> is unchanged: the symbol is added
  neither to the list of symbols nor to the predictions. The request is made when the typed
  symbol is not blank.
\<close>

theorem handleSubmit_not_found:
  assumes "trim (stockSymbol m) \<noteq> []"
    and "post (toUpperCase (stockSymbol m)) = Rejected (Some r)"
    and "status r = 404"
  shows "fst (handleSubmit rnd toUpperCase post (app, m)) = app \<and>
         error (snd (handleSubmit rnd toUpperCase post (app, m))) = notFoundMessage \<and>
         allStocks (fst (handleSubmit rnd toUpperCase post (app, m))) = allStocks app \<and>
         (\<forall>sy. cardPrediction (fst (handleSubmit rnd toUpperCase post (app, m))) sy =
               cardPrediction app sy)"
  using assms by (simp add: handleSubmit_def errorMessage_def)

text \<open>
  The theorem for the ticker ZZZZ, which the backend answers with 404. The dialog holds the
  ticker in capitals, which \<open>toUpperCase\<close> returns as they are.
\<close>

theorem handleSubmit_not_found_witness:
  "trim (stockSymbol (exampleModal\<lparr>stockSymbol := ''ZZZZ''\<rparr>)) \<noteq> [] \<and>
   (\<lambda>t. if t = ''ZZZZ'' then Rejected (Some \<lparr>status = 404, data_error = None\<rparr>)
             else Resolved exampleStock)
     ((\<lambda>t. t) (stockSymbol (exampleModal\<lparr>stockSymbol := ''ZZZZ''\<rparr>)))
     = Rejected (Some \<lparr>status = 404, data_error = None\<rparr>) \<and>
   status \<lparr>status = 404, data_error = None\<rparr> = 404 \<and>
   error (snd (handleSubmit 0 (\<lambda>t. t)
       (\<lambda>t. if t = ''ZZZZ'' then Rejected (Some \<lparr>status = 404, data_error = None\<rparr>)
             else Resolved exampleStock)
       (loadedState, exampleModal\<lparr>stockSymbol := ''ZZZZ''\<rparr>))) = notFoundMessage \<and>
   allStocks (fst (handleSubmit 0 (\<lambda>t. t)
       (\<lambda>t. if t = ''ZZZZ'' then Rejected (Some \<lparr>status = 404, data_error = None\<rparr>)
             else Resolved exampleStock)
       (loadedState, exampleModal\<lparr>stockSymbol := ''ZZZZ''\<rparr>))) =
     [''AAPL'', ''MSFT'', ''NVDA'', ''GOOGL'', ''AMZN'']"
proof -
  let ?post = "(\<lambda>t. if t = ''ZZZZ'' then Rejected (Some \<lparr>status = 404, data_error = None\<rparr>)
             else Resolved exampleStock)"
  let ?m = "exampleModal\<lparr>stockSymbol := ''ZZZZ''\<rparr>"
  have h1: "trim (stockSymbol ?m) \<noteq> []"
    by (simp add: exampleModal_def trim_def isWhiteSpace_def)
  have h2: "?post ((\<lambda>t. t) (stockSymbol ?m)) =
      Rejected (Some \<lparr>status = 404, data_error = None\<rparr>)"
    by (simp add: exampleModal_def)
  have h3: "status \<lparr>status = 404, data_error = None\<rparr> = 404" by simp
  from handleSubmit_not_found [of ?m ?post "\<lambda>t. t", OF h1 h2 h3, of 0 loadedState] h1 h2 h3
    allStocks_loadedState
  show ?thesis by simp
qed

section \<open>The direction of a prediction and the placeholder of a failed cycle\<close>

text \<open>What a failed cycle leaves in the served predictions.\<close>

lemma predictions_failedCycle:
  "predictions (failedCycle acc sy pd) sy' =
     (if sy' = sy
      then Some \<lparr>Prediction.prediction = ''ERROR'', Prediction.confidence = 0,
                 Prediction.accuracy = acc\<rparr>
      else predictions pd sy')"
  by (simp add: failedCycle_def)

lemma cardPrediction_fetchData:
  "cardPrediction (fetchData (Some (pd, perf)) s) sy =
     (case predictions pd sy of
        Some p \<Rightarrow> Own p
      | None \<Rightarrow> if sy \<in> set objectPrototypeKeys then Inherited else Undefined)"
  by (simp add: cardPrediction_def fetchData_def)

text \<open>
  Claim C4, as the code has it. Every prediction on a card has its direction among UP, DOWN
  and ERROR, provided the predictions the cards had before did and the direction of the
  add-stock answer is one of the three: \<open>handleAddStock\<close> stores the answer's direction
  unchecked. A failed cycle yields the placeholder with direction ERROR and confidence 0
  rather than no value: when the served predictions are fetched, the card of the symbol
  has the placeholder, shown with the question mark, and the other cards have what they
  would have had. So a symbol whose cycle has published or failed has a prediction or a
  placeholder to show: the card of a symbol has the prediction that was served for it. A
  symbol for which nothing was served has a card without a prediction.
\<close>

theorem served_directions_and_placeholder:
  assumes inv: "\<forall>sy \<in> set (allStocks s). \<forall>p. cardPrediction s sy = Own p \<longrightarrow>
            Prediction.prediction p \<in> {''UP'', ''DOWN'', ''ERROR''}"
    and dir: "direction stockData \<in> {''UP'', ''DOWN'', ''ERROR''}"
  shows "(\<forall>sy \<in> set (allStocks (handleAddStock rnd stockData s)).
            \<forall>p. cardPrediction (handleAddStock rnd stockData s) sy = Own p \<longrightarrow>
              Prediction.prediction p \<in> {''UP'', ''DOWN'', ''ERROR''}) \<and>
         cardPrediction (fetchData (Some (failedCycle acc failed pd, perf)) s0) failed =
           Own \<lparr>Prediction.prediction = ''ERROR'', Prediction.confidence = 0,
                Prediction.accuracy = acc\<rparr> \<and>
         getPredictionIcon
           (cardPrediction (fetchData (Some (failedCycle acc failed pd, perf)) s0) failed) =
           QuestionMark \<and>
         (\<forall>sy. sy \<noteq> failed \<longrightarrow>
            cardPrediction (fetchData (Some (failedCycle acc failed pd, perf)) s0) sy =
            cardPrediction (fetchData (Some (pd, perf)) s0) sy) \<and>
         (\<forall>sy p. predictions pd sy = Some p \<longrightarrow>
            cardPrediction (fetchData (Some (pd, perf)) s0) sy = Own p) \<and>
         (\<forall>sy p. predictions pd sy = None \<longrightarrow>
            cardPrediction (fetchData (Some (pd, perf)) s0) sy \<noteq> Own p)"
proof (intro conjI)
  show "\<forall>sy \<in> set (allStocks (handleAddStock rnd stockData s)).
            \<forall>p. cardPrediction (handleAddStock rnd stockData s) sy = Own p \<longrightarrow>
              Prediction.prediction p \<in> {''UP'', ''DOWN'', ''ERROR''}"
  proof (rule handleAddStock_preserves [where P = "\<lambda>p. Prediction.prediction p \<in> {''UP'', ''DOWN'', ''ERROR''}"])
    show "\<forall>sy \<in> set (allStocks s). \<forall>p. cardPrediction s sy = Own p \<longrightarrow>
            Prediction.prediction p \<in> {''UP'', ''DOWN'', ''ERROR''}"
      by (rule inv)
    show "Prediction.prediction \<lparr>Prediction.prediction = direction stockData,
                 Prediction.confidence = NewStockData.confidence stockData / 100,
                 Prediction.accuracy = rnd * 0.3 + 0.7\<rparr> \<in> {''UP'', ''DOWN'', ''ERROR''}"
      using dir by simp
  qed
  show "cardPrediction (fetchData (Some (failedCycle acc failed pd, perf)) s0) failed =
           Own \<lparr>Prediction.prediction = ''ERROR'', Prediction.confidence = 0,
                Prediction.accuracy = acc\<rparr>"
    by (simp add: cardPrediction_fetchData predictions_failedCycle)
  then show "getPredictionIcon
           (cardPrediction (fetchData (Some (failedCycle acc failed pd, perf)) s0) failed) =
           QuestionMark"
    by (simp add: getPredictionIcon_def)
  show "\<forall>sy. sy \<noteq> failed \<longrightarrow>
            cardPrediction (fetchData (Some (failedCycle acc failed pd, perf)) s0) sy =
            cardPrediction (fetchData (Some (pd, perf)) s0) sy"
    by (simp add: cardPrediction_fetchData predictions_failedCycle)
  show "\<forall>sy p. predictions pd sy = Some p \<longrightarrow>
            cardPrediction (fetchData (Some (pd, perf)) s0) sy = Own p"
    by (simp add: cardPrediction_fetchData)
  show "\<forall>sy p. predictions pd sy = None \<longrightarrow>
            cardPrediction (fetchData (Some (pd, perf)) s0) sy \<noteq> Own p"
    by (simp add: cardPrediction_fetchData)
qed

text \<open>
  The theorem at the loaded example state, where AAPL is predicted UP, for the answer for
  TSLA with direction DOWN and for a failed cycle of MSFT: the card of TSLA shows DOWN,
  the card of MSFT the placeholder with confidence 0, the card of AAPL its prediction.
\<close>

theorem served_directions_and_placeholder_witness:
  "list_all (\<lambda>sy. case cardPrediction loadedState sy of
                     Own p \<Rightarrow> Prediction.prediction p \<in> {''UP'', ''DOWN'', ''ERROR''}
                   | _ \<Rightarrow> True)
      (allStocks loadedState) \<and>
   direction (exampleStock\<lparr>direction := ''DOWN''\<rparr>) \<in> {''UP'', ''DOWN'', ''ERROR''} \<and>
   list_all (\<lambda>sy. case cardPrediction
                          (handleAddStock 0 (exampleStock\<lparr>direction := ''DOWN''\<rparr>) loadedState) sy of
                     Own p \<Rightarrow> Prediction.prediction p \<in> {''UP'', ''DOWN'', ''ERROR''}
                   | _ \<Rightarrow> True)
      (allStocks (handleAddStock 0 (exampleStock\<lparr>direction := ''DOWN''\<rparr>) loadedState)) \<and>
   cardPrediction (handleAddStock 0 (exampleStock\<lparr>direction := ''DOWN''\<rparr>) loadedState) ''TSLA'' =
     Own \<lparr>Prediction.prediction = ''DOWN'', Prediction.confidence = 4 / 5,
          Prediction.accuracy = 7 / 10\<rparr> \<and>
   cardPrediction
     (fetchData (Some (failedCycle (1 / 2) ''MSFT'' examplePredictions, examplePerformance))
        initialState) ''MSFT'' =
     Own \<lparr>Prediction.prediction = ''ERROR'', Prediction.confidence = 0,
          Prediction.accuracy = 1 / 2\<rparr> \<and>
   getPredictionIcon
     (cardPrediction
        (fetchData (Some (failedCycle (1 / 2) ''MSFT'' examplePredictions, examplePerformance))
           initialState) ''MSFT'') = QuestionMark \<and>
   cardPrediction
     (fetchData (Some (failedCycle (1 / 2) ''MSFT'' examplePredictions, examplePerformance))
        initialState) ''AAPL'' =
     Own \<lparr>Prediction.prediction = ''UP'', Prediction.confidence = 0.62,
          Prediction.accuracy = 0.55\<rparr>"
proof -
  let ?sd = "exampleStock\<lparr>direction := ''DOWN''\<rparr>"
  let ?f = "fetchData (Some (failedCycle (1 / 2) ''MSFT'' examplePredictions, examplePerformance))
        initialState"
  have h1: "\<forall>sy \<in> set (allStocks loadedState). \<forall>p. cardPrediction loadedState sy = Own p \<longrightarrow>
            Prediction.prediction p \<in> {''UP'', ''DOWN'', ''ERROR''}"
    by (auto simp: cardPrediction_loadedState split: if_splits)
  have h2: "direction ?sd \<in> {''UP'', ''DOWN'', ''ERROR''}" by simp
  note t = served_directions_and_placeholder [OF h1 h2, of 0 "1 / 2" "''MSFT''" examplePredictions
      examplePerformance initialState]
  have c1: "list_all (\<lambda>sy. case cardPrediction loadedState sy of
                     Own p \<Rightarrow> Prediction.prediction p \<in> {''UP'', ''DOWN'', ''ERROR''}
                   | _ \<Rightarrow> True)
      (allStocks loadedState)"
    unfolding list_all_iff using h1 by (simp split: property.splits)
  have c2: "list_all (\<lambda>sy. case cardPrediction (handleAddStock 0 ?sd loadedState) sy of
                     Own p \<Rightarrow> Prediction.prediction p \<in> {''UP'', ''DOWN'', ''ERROR''}
                   | _ \<Rightarrow> True)
      (allStocks (handleAddStock 0 ?sd loadedState))"
    unfolding list_all_iff using t by (simp split: property.splits)
  have v: "cardPrediction (handleAddStock 0 ?sd loadedState) ''TSLA'' =
     Own \<lparr>Prediction.prediction = ''DOWN'', Prediction.confidence = 4 / 5,
          Prediction.accuracy = 7 / 10\<rparr>"
    by (simp add: handleAddStock_def loadedState_simps exampleStock_def cardPrediction_def Let_def)
  have f1: "cardPrediction ?f ''MSFT'' =
     Own \<lparr>Prediction.prediction = ''ERROR'', Prediction.confidence = 0,
          Prediction.accuracy = 1 / 2\<rparr>"
    using t by simp
  have f2: "getPredictionIcon (cardPrediction ?f ''MSFT'') = QuestionMark"
    using t by blast
  have "cardPrediction ?f ''AAPL'' =
      cardPrediction (fetchData (Some (examplePredictions, examplePerformance)) initialState) ''AAPL''"
    using t by simp
  then have f3: "cardPrediction ?f ''AAPL'' =
     Own \<lparr>Prediction.prediction = ''UP'', Prediction.confidence = 0.62,
          Prediction.accuracy = 0.55\<rparr>"
    by (simp add: cardPrediction_fetchData examplePredictions_def)
  from c1 h2 c2 v f1 f2 f3 show ?thesis by blast
qed

text \<open>
  Claim C4 as the spec states it fails twice. The answer's direction SIDEWAYS is stored as
  the direction of the prediction on the card of the added symbol; and MSFT, for which
  the backend served nothing, has a card and no value at all.
\<close>

theorem handleAddStock_direction_unchecked:
  "cardPrediction
     (handleAddStock 0 (exampleStock\<lparr>direction := ''SIDEWAYS''\<rparr>) loadedState) ''TSLA'' =
     Own \<lparr>Prediction.prediction = ''SIDEWAYS'', Prediction.confidence = 4 / 5,
          Prediction.accuracy = 7 / 10\<rparr> \<and>
   ''TSLA'' \<in> set (allStocks
       (handleAddStock 0 (exampleStock\<lparr>direction := ''SIDEWAYS''\<rparr>) loadedState)) \<and>
   ''SIDEWAYS'' \<notin> {''UP'', ''DOWN'', ''ERROR''} \<and>
   ''MSFT'' \<in> set (allStocks loadedState) \<and>
   cardPrediction loadedState ''MSFT'' = Undefined"
  by (simp add: handleAddStock_def loadedState_simps exampleStock_def cardPrediction_def
      allStocks_def defaultStocks_def examplePredictions_def objectPrototypeKeys_def Let_def)

section \<open>The outcomes of an add-stock request\<close>

text \<open>
  Claim C5, as the code has it. A submission ends in one of two ways. Either the backend
  answered with a payload, and the record handed to \<open>handleAddStock\<close> is the payload cut
  down to exactly the six fields symbol, name, currentPrice, prediction, confidence and
  direction; no other success shape exists. Or the state of \<open>App\<close> is unchanged and the
  dialog shows an error: the request for a symbol for a blank input, the not-found message
  for an answer with status 404, and for any other failure the error text of the answer or
  the general failure message.
\<close>

theorem handleSubmit_outcomes:
  "(\<exists>data. trim (stockSymbol m) \<noteq> [] \<and> post (toUpperCase (stockSymbol m)) = Resolved data \<and>
      handleSubmit rnd toUpperCase post (app, m) =
        (onClose (handleAddStock rnd (NewStockData.truncate data) app),
         m\<lparr>stockSymbol := [], isLoading := False, error := []\<rparr>)) \<or>
   (fst (handleSubmit rnd toUpperCase post (app, m)) = app \<and>
    (trim (stockSymbol m) = [] \<and>
       error (snd (handleSubmit rnd toUpperCase post (app, m))) = ''Please enter a stock symbol'' \<or>
     (\<exists>r. post (toUpperCase (stockSymbol m)) = Rejected (Some r) \<and> status r = 404 \<and>
        error (snd (handleSubmit rnd toUpperCase post (app, m))) = notFoundMessage) \<or>
     (\<exists>err. post (toUpperCase (stockSymbol m)) = Rejected err \<and>
        map_option status err \<noteq> Some 404 \<and>
        (error (snd (handleSubmit rnd toUpperCase post (app, m))) = failedMessage \<or>
         (\<exists>r. err = Some r \<and>
            data_error r = Some (error (snd (handleSubmit rnd toUpperCase post (app, m)))))))))"
proof (cases "trim (stockSymbol m) = []")
  case True
  then show ?thesis by (simp add: handleSubmit_def)
next
  case False
  show ?thesis
  proof (cases "post (toUpperCase (stockSymbol m))")
    case (Resolved data)
    with False show ?thesis
      by (simp add: handleSubmit_def NewStockData.truncate_def)
  next
    case (Rejected err)
    show ?thesis
    proof (cases "map_option status err = Some 404")
      case True
      with False Rejected show ?thesis
        by (auto simp: handleSubmit_def errorMessage_def)
    next
      case no: False
      with False Rejected show ?thesis
        by (auto simp: handleSubmit_def errorMessage_def split: option.splits)
    qed
  qed
qed

text \<open>
  Claim C5 as the spec states it fails: an answer with status 500 gives neither a record nor
  the not-found error, but the general failure message.
\<close>

theorem handleSubmit_other_failure:
  "handleSubmit 0 (\<lambda>t. t)
     (\<lambda>t. Rejected (Some \<lparr>status = 500, data_error = None\<rparr>) :: NewStockData AxiosResult)
     (loadedState, exampleModal) =
     (loadedState, exampleModal\<lparr>isLoading := False, error := failedMessage\<rparr>) \<and>
   failedMessage \<noteq> notFoundMessage \<and> failedMessage \<noteq> []"
  by (simp add: handleSubmit_def exampleModal_def trim_def isWhiteSpace_def errorMessage_def
      failedMessage_def notFoundMessage_def)

section \<open>Confidence and accuracy of an added symbol\<close>

text \<open>
  Claim C9: for every answer that \<open>handleAddStock\<close> accepts, the confidence stored for
  the added symbol is the answer's confidence divided by 100.
\<close>

theorem handleAddStock_confidence:
  assumes "symbol stockData \<notin> set (customStocks s)" and "app_predictions s = Some prev"
  shows "map_property Prediction.confidence
           (cardPrediction (handleAddStock rnd stockData s) (symbol stockData)) =
         Own (NewStockData.confidence stockData / 100)"
  by (simp add: cardPrediction_added [OF assms])

text \<open>The theorem for the TSLA answer, whose confidence 80 is stored as 4/5.\<close>

theorem handleAddStock_confidence_witness:
  "symbol exampleStock \<notin> set (customStocks loadedState) \<and>
   app_predictions loadedState = Some examplePredictions \<and>
   NewStockData.confidence exampleStock = 80 \<and>
   map_property Prediction.confidence
     (cardPrediction (handleAddStock 0 exampleStock loadedState) ''TSLA'') = Own (4 / 5)"
proof -
  have h1: "symbol exampleStock \<notin> set (customStocks loadedState)" by (simp add: loadedState_simps)
  have h2: "app_predictions loadedState = Some examplePredictions" by (simp add: loadedState_simps)
  from handleAddStock_confidence [OF h1 h2, of 0] h1 h2 show ?thesis
    by (simp add: exampleStock_def)
qed

text \<open>
  Claim C8: for every answer that \<open>handleAddStock\<close> accepts, the accuracy stored for the
  added symbol is at least 0.7 and below 1; it is the same for any two accepted answers
  when \<open>Math.random()\<close> gives the same number, so no field of the answer enters it; and
  for one and the same answer two results of \<open>Math.random()\<close> store different accuracies.
\<close>

theorem handleAddStock_accuracy_random:
  assumes "symbol stockData \<notin> set (customStocks s)" and "app_predictions s = Some prev"
    and "symbol stockData' \<notin> set (customStocks s')" and "app_predictions s' = Some prev'"
    and "0 \<le> rnd" and "rnd < 1"
  shows "(\<exists>p. cardPrediction (handleAddStock rnd stockData s) (symbol stockData) = Own p \<and>
              0.7 \<le> Prediction.accuracy p \<and> Prediction.accuracy p < 1) \<and>
         map_property Prediction.accuracy
           (cardPrediction (handleAddStock rnd stockData s) (symbol stockData)) =
         map_property Prediction.accuracy
           (cardPrediction (handleAddStock rnd stockData' s') (symbol stockData')) \<and>
         (\<exists>r1 r2. 0 \<le> r1 \<and> r1 < 1 \<and> 0 \<le> r2 \<and> r2 < 1 \<and>
            map_property Prediction.accuracy
              (cardPrediction (handleAddStock r1 stockData s) (symbol stockData)) \<noteq>
            map_property Prediction.accuracy
              (cardPrediction (handleAddStock r2 stockData s) (symbol stockData)))"
proof (intro conjI)
  show "\<exists>p. cardPrediction (handleAddStock rnd stockData s) (symbol stockData) = Own p \<and>
              0.7 \<le> Prediction.accuracy p \<and> Prediction.accuracy p < 1"
    using assms(5,6) by (simp add: cardPrediction_added [OF assms(1,2)])
next
  show "map_property Prediction.accuracy
           (cardPrediction (handleAddStock rnd stockData s) (symbol stockData)) =
         map_property Prediction.accuracy
           (cardPrediction (handleAddStock rnd stockData' s') (symbol stockData'))"
    by (simp add: cardPrediction_added [OF assms(1,2)] cardPrediction_added [OF assms(3,4)])
next
  have "map_property Prediction.accuracy
              (cardPrediction (handleAddStock 0 stockData s) (symbol stockData)) \<noteq>
            map_property Prediction.accuracy
              (cardPrediction (handleAddStock (1 / 2) stockData s) (symbol stockData))"
    by (simp add: cardPrediction_added [OF assms(1,2)])
  then show "\<exists>r1 r2. 0 \<le> r1 \<and> r1 < 1 \<and> 0 \<le> r2 \<and> r2 < 1 \<and>
            map_property Prediction.accuracy
              (cardPrediction (handleAddStock r1 stockData s) (symbol stockData)) \<noteq>
            map_property Prediction.accuracy
              (cardPrediction (handleAddStock r2 stockData s) (symbol stockData))"
    by (intro exI [of _ 0] exI [of _ "1 / 2"]) simp
qed

text \<open>
  The theorem for the TSLA answer and an answer for META that differs in symbol, confidence
  and direction: with the random number 1/3 both store the accuracy 4/5.
\<close>

theorem handleAddStock_accuracy_random_witness:
  "symbol exampleStock \<notin> set (customStocks loadedState) \<and>
   app_predictions loadedState = Some examplePredictions \<and>
   symbol (exampleStock\<lparr>symbol := ''META'', NewStockData.confidence := 10, direction := ''DOWN''\<rparr>)
     \<notin> set (customStocks loadedState) \<and>
   (0 :: real) \<le> 1 / 3 \<and> (1 / 3 :: real) < 1 \<and>
   map_property Prediction.accuracy
     (cardPrediction (handleAddStock (1 / 3) exampleStock loadedState) ''TSLA'') = Own (4 / 5) \<and>
   map_property Prediction.accuracy
     (cardPrediction
        (handleAddStock (1 / 3)
           (exampleStock\<lparr>symbol := ''META'', NewStockData.confidence := 10, direction := ''DOWN''\<rparr>)
           loadedState) ''META'') = Own (4 / 5)"
proof -
  let ?sd = "exampleStock\<lparr>symbol := ''META'', NewStockData.confidence := 10, direction := ''DOWN''\<rparr>"
  have h1: "symbol exampleStock \<notin> set (customStocks loadedState)" by (simp add: loadedState_simps)
  have h2: "app_predictions loadedState = Some examplePredictions" by (simp add: loadedState_simps)
  have h3: "symbol ?sd \<notin> set (customStocks loadedState)" by (simp add: loadedState_simps)
  have h5: "(0 :: real) \<le> 1 / 3" "(1 / 3 :: real) < 1" by simp_all
  have v: "map_property Prediction.accuracy
     (cardPrediction (handleAddStock (1 / 3) exampleStock loadedState) ''TSLA'') = Own (4 / 5)"
    by (simp add: handleAddStock_def loadedState_simps exampleStock_def cardPrediction_def Let_def)
  have sy: "symbol exampleStock = ''TSLA''" "symbol ?sd = ''META''" by (simp_all add: exampleStock_def)
  from handleAddStock_accuracy_random [OF h1 h2 h3 h2 h5] h1 h2 h3 h5 v show ?thesis
    by (simp add: sy)
qed

section \<open>The domain of the chart\<close>















section \<open>The sentiment percentages\<close>

lemma partition_counts:
  "length (filter isBullish cs) + length (filter isBearish cs) + length (filter isNeutral cs) = length cs"
  by (induction cs) (auto simp: isNeutral_def isBullish_def isBearish_def)

text \<open>
  Claim C7: for a watch-list of any size the percentages of a sentiment snapshot add up to
  exactly 100; only the empty watch-list has no snapshot.
\<close>

theorem snapshotSentiment_sums_to_100:
  "(case snapshotSentiment changes of
      None \<Rightarrow> changes = []
    | Some m \<Rightarrow> bullish m + bearish m + neutral m = 100)"
proof (cases "changes = []")
  case True
  then show ?thesis by (simp add: snapshotSentiment_def)
next
  case False
  then have n: "real (length changes) \<noteq> 0" by simp
  have "share isBullish changes + share isBearish changes + share isNeutral changes =
        100 * real (length (filter isBullish changes) + length (filter isBearish changes)
                    + length (filter isNeutral changes)) / real (length changes)"
    by (simp add: share_def add_divide_distrib distrib_left)
  also have "\<dots> = 100" using n by (simp add: partition_counts)
  finally show ?thesis using False by (simp add: snapshotSentiment_def)
qed

text \<open>The theorem for a watch-list of seven symbols: 300/7, 100/7 and 300/7.\<close>

theorem snapshotSentiment_sums_to_100_witness:
  "snapshotSentiment [1, - 2, 0.2, 3, 0.5, - 0.5, 7] =
     Some \<lparr>bullish = 300 / 7, bearish = 100 / 7, neutral = 300 / 7\<rparr> \<and>
   (300 / 7 + 100 / 7 + 300 / 7 :: real) = 100"
  using snapshotSentiment_sums_to_100 [of "[1, - 2, 0.2, 3, 0.5, - 0.5, 7]"]
  by (simp add: snapshotSentiment_def share_def isBullish_def isBearish_def isNeutral_def)

end
